theory Spec2Isabelle
  imports Complex_Main "HOL-Library.AList"
begin

section \<open>The browser as the cache manager sees it\<close>

text \<open>
  The cache manager of \<^verbatim>\<open>src/lib/cache-manager.ts\<close> keeps its entries in the browser's
  \<^verbatim>\<open>localStorage\<close>, reads the clock with \<^verbatim>\<open>Date.now()\<close> and announces a change of the
  domain data with a \<^verbatim>\<open>CustomEvent\<close> on \<^verbatim>\<open>window\<close>. These are the parts of the browser the
  model holds.

  A value handed to \<^verbatim>\<open>set\<close> is modelled by what \<^verbatim>\<open>JSON.stringify\<close> makes of it:
  \<^item> \<open>Plain v\<close>: a value that JSON holds, written and read back as it is; \<open>v\<close> is \<open>None\<close>
    for \<^verbatim>\<open>null\<close> and \<open>Some x\<close> for any other such value;
  \<^item> \<open>Altered w\<close>: a value that is written as the text of another value \<open>w\<close> (\<^verbatim>\<open>NaN\<close>
    and \<^verbatim>\<open>Infinity\<close> as \<^verbatim>\<open>null\<close>, a \<^verbatim>\<open>Date\<close> as a string);
  \<^item> \<open>Unwritable\<close>: a value on which \<^verbatim>\<open>JSON.stringify\<close> throws (a cyclic object, a
    \<^verbatim>\<open>BigInt\<close>).

  An entry has the four fields of \<^verbatim>\<open>CacheEntry<T>\<close>. Its \<open>version\<close> is \<open>None\<close> where the
  field is \<^verbatim>\<open>undefined\<close>: \<^verbatim>\<open>JSON.stringify\<close> leaves such a field out, and reading it from
  the parsed entry gives \<^verbatim>\<open>undefined\<close> again. Its \<open>expiresAt\<close> is \<open>None\<close> where \<^verbatim>\<open>set\<close>
  computed \<^verbatim>\<open>NaN\<close>: \<^verbatim>\<open>JSON.stringify\<close> writes \<^verbatim>\<open>null\<close> for it, and \<^verbatim>\<open>null\<close> is what the
  parsed entry holds.

  A stored text is modelled by what the code can observe of it:
  \<^item> \<open>Json e\<close>: the text \<^verbatim>\<open>JSON.stringify\<close> writes for an entry, which \<^verbatim>\<open>JSON.parse\<close>
    reads as the entry \<open>e\<close>; the data of \<open>e\<close> are \<open>None\<close> for \<^verbatim>\<open>null\<close>;
  \<^item> \<open>Corrupt\<close>: a text that is not empty and on which \<^verbatim>\<open>JSON.parse\<close> throws;
  \<^item> \<open>Blank\<close>: the empty text, which the tests \<^verbatim>\<open>!item\<close> and \<^verbatim>\<open>if (item)\<close> of the
    source take for a missing one.
  A text that parses to something other than such an entry is outside the model: the
  source types the result of the parse as \<^verbatim>\<open>CacheEntry<T>\<close>.

  Times are milliseconds since the epoch, as integers. One call of a method of the cache
  manager is synchronous; every \<^verbatim>\<open>Date.now()\<close> inside it reads the parameter \<open>now\<close>.
  Console output is left out.
\<close>

datatype 'a jsvalue = Plain "'a option" | Altered "'a option" | Unwritable

record 'd CacheEntry =
  data :: 'd
  timestamp :: int
  version :: "string option"
  expiresAt :: "int option"

record CacheConfig =
  duration :: int
  version :: string

datatype 'a item = Json "'a option CacheEntry" | Corrupt | Blank

text \<open>\<open>CustomEvent name source timestamp type\<close>: the event's name and the three fields
  of its \<^verbatim>\<open>detail\<close>.\<close>

datatype CustomEvent = CustomEvent string string int string

record 'a browser =
  localStorage :: "(string \<times> 'a item) list"
  storage_full :: bool
  window_defined :: bool
  dispatched :: "CustomEvent list"

datatype error = QuotaExceededError | SyntaxError | TypeError | PostgrestError

subsection \<open>Statements that may throw\<close>

text \<open>
  A statement runs on a state and ends normally with a value (\<open>Inr\<close>) or by throwing
  (\<open>Inl\<close>); in both cases the state it has reached stays. \<open>try_catch\<close> is the source's
  \<^verbatim>\<open>try { ... } catch (error) { ... }\<close>.
\<close>

type_synonym ('r, 's) prog = "'s \<Rightarrow> (error + 'r) \<times> 's"

definition ret :: "'r \<Rightarrow> ('r, 's) prog" where
  "ret r = (\<lambda>s. (Inr r, s))"

definition throw :: "error \<Rightarrow> ('r, 's) prog" where
  "throw e = (\<lambda>s. (Inl e, s))"

definition seq :: "('r, 's) prog \<Rightarrow> ('r \<Rightarrow> ('q, 's) prog) \<Rightarrow> ('q, 's) prog" where
  "seq m f = (\<lambda>s. case m s of (Inl e, s') \<Rightarrow> (Inl e, s') | (Inr r, s') \<Rightarrow> f r s')"

definition try_catch :: "('r, 's) prog \<Rightarrow> (error \<Rightarrow> ('r, 's) prog) \<Rightarrow> ('r, 's) prog" where
  "try_catch m h = (\<lambda>s. case m s of (Inl e, s') \<Rightarrow> h e s' | (Inr r, s') \<Rightarrow> (Inr r, s'))"

fun forEach :: "'x list \<Rightarrow> ('x \<Rightarrow> (unit, 's) prog) \<Rightarrow> (unit, 's) prog" where
  "forEach [] f = ret ()"
| "forEach (x # xs) f = seq (f x) (\<lambda>_. forEach xs f)"

subsection \<open>The storage interface\<close>

text \<open>
  \<^verbatim>\<open>getItem\<close>, \<^verbatim>\<open>removeItem\<close> and \<^verbatim>\<open>Object.keys\<close> do not throw; \<^verbatim>\<open>setItem\<close> throws
  when the storage's quota is used up, which the flag \<open>storage_full\<close> decides.
\<close>

definition getItem :: "string \<Rightarrow> ('a item option, 'a browser) prog" where
  "getItem k = (\<lambda>b. (Inr (map_of (localStorage b) k), b))"

definition setItem :: "string \<Rightarrow> 'a item \<Rightarrow> (unit, 'a browser) prog" where
  "setItem k v = (\<lambda>b. if storage_full b then (Inl QuotaExceededError, b)
      else (Inr (), b\<lparr>localStorage := AList.update k v (localStorage b)\<rparr>))"

definition removeItem :: "string \<Rightarrow> (unit, 'a browser) prog" where
  "removeItem k = (\<lambda>b. (Inr (), b\<lparr>localStorage := AList.delete k (localStorage b)\<rparr>))"

definition Object_keys :: "(string list, 'a browser) prog" where
  "Object_keys = (\<lambda>b. (Inr (map fst (localStorage b)), b))"

definition JSON_stringify :: "'a jsvalue CacheEntry \<Rightarrow> ('a item, 's) prog" where
  "JSON_stringify entry =
    (case data entry of
       Plain v \<Rightarrow>
         ret (Json \<lparr>data = v, timestamp = timestamp entry,
                    version = CacheEntry.version entry, expiresAt = expiresAt entry\<rparr>)
     | Altered w \<Rightarrow>
         ret (Json \<lparr>data = w, timestamp = timestamp entry,
                    version = CacheEntry.version entry, expiresAt = expiresAt entry\<rparr>)
     | Unwritable \<Rightarrow> throw TypeError)"

definition JSON_parse :: "'a item \<Rightarrow> ('a option CacheEntry, 's) prog" where
  "JSON_parse it = (case it of Json e \<Rightarrow> ret e | Corrupt \<Rightarrow> throw SyntaxError
      | Blank \<Rightarrow> throw SyntaxError)"

text \<open>\<^verbatim>\<open>!item\<close> for the result of \<^verbatim>\<open>getItem\<close>: \<^verbatim>\<open>null\<close> and the empty text are falsy.\<close>

definition falsy :: "'a item option \<Rightarrow> bool" where
  "falsy item = (item = None \<or> item = Some Blank)"

definition startsWith :: "string \<Rightarrow> string \<Rightarrow> bool" where
  "startsWith s p = (take (length p) s = p)"

definition dispatchEvent :: "CustomEvent \<Rightarrow> (unit, 'a browser) prog" where
  "dispatchEvent ev = (\<lambda>b. (Inr (), b\<lparr>dispatched := dispatched b @ [ev]\<rparr>))"

section \<open>The cache manager\<close>

definition CACHE_CONFIGS :: "(string \<times> CacheConfig) list" where
  "CACHE_CONFIGS =
    [(''projects'', \<lparr>duration = 5 * 60 * 1000, version = ''1.0''\<rparr>),
     (''dashboard'', \<lparr>duration = 5 * 60 * 1000, version = ''1.0''\<rparr>),
     (''profile'', \<lparr>duration = 45 * 60 * 1000, version = ''1.1''\<rparr>),
     (''adminSettings'', \<lparr>duration = 30 * 60 * 1000, version = ''1.0''\<rparr>),
     (''notifications'', \<lparr>duration = 2 * 60 * 1000, version = ''1.0''\<rparr>),
     (''domainExpiry'', \<lparr>duration = 1 * 60 * 1000, version = ''1.0''\<rparr>)]"

definition prefix :: string where
  "prefix = ''regina_cache_''"

text \<open>
  \<^verbatim>\<open>CACHE_CONFIGS\<close> is an object literal, and \<^verbatim>\<open>CACHE_CONFIGS[key]\<close> reads a property of
  it: one of the six of its own, or one that every object inherits from
  \<^verbatim>\<open>Object.prototype\<close>: eleven functions and, under \<^verbatim>\<open>__proto__\<close>, the prototype itself.
  An inherited value is truthy, and its \<^verbatim>\<open>duration\<close> and \<^verbatim>\<open>version\<close> are \<^verbatim>\<open>undefined\<close>.
  For every other key the read gives \<^verbatim>\<open>undefined\<close> (\<open>None\<close>).
\<close>

definition Object_prototype :: "string list" where
  "Object_prototype =
    [''constructor'', ''__defineGetter__'', ''__defineSetter__'', ''hasOwnProperty'',
     ''__lookupGetter__'', ''__lookupSetter__'', ''isPrototypeOf'', ''propertyIsEnumerable'',
     ''toString'', ''valueOf'', ''__proto__'', ''toLocaleString'']"

datatype property = Own CacheConfig | Inherited

definition CACHE_CONFIGS_at :: "string \<Rightarrow> property option" where
  "CACHE_CONFIGS_at key =
    (case map_of CACHE_CONFIGS key of
       Some config \<Rightarrow> Some (Own config)
     | None \<Rightarrow> if key \<in> set Object_prototype then Some Inherited else None)"

text \<open>\<^verbatim>\<open>config.duration\<close> and \<^verbatim>\<open>config.version\<close>; \<open>None\<close> is \<^verbatim>\<open>undefined\<close>.\<close>

definition duration_of :: "property \<Rightarrow> int option" where
  "duration_of config = (case config of Own c \<Rightarrow> Some (duration c) | Inherited \<Rightarrow> None)"

definition version_of :: "property \<Rightarrow> string option" where
  "version_of config =
    (case config of Own c \<Rightarrow> Some (CacheConfig.version c) | Inherited \<Rightarrow> None)"

text \<open>\<^verbatim>\<open>CACHE_CONFIGS[key] || { duration: 5 * 60 * 1000, version: '1.0' }\<close>, as \<^verbatim>\<open>set\<close> and
  \<^verbatim>\<open>shouldRefresh\<close> write it.\<close>

definition config_or_default :: "string \<Rightarrow> property" where
  "config_or_default key =
    (case CACHE_CONFIGS_at key of
       Some config \<Rightarrow> config
     | None \<Rightarrow> Own \<lparr>duration = 5 * 60 * 1000, version = ''1.0''\<rparr>)"

text \<open>
  \<^verbatim>\<open>Date.now() > entry.expiresAt\<close> on a parsed entry: the comparison reads \<^verbatim>\<open>null\<close> as 0.
\<close>

definition past :: "int \<Rightarrow> int option \<Rightarrow> bool" where
  "past now e = (case e of Some t \<Rightarrow> now > t | None \<Rightarrow> now > 0)"

definition invalidate :: "string \<Rightarrow> (unit, 'a browser) prog" where
  "invalidate key = try_catch (removeItem (prefix @ key)) (\<lambda>error. ret ())"

definition clearExpired_key :: "int \<Rightarrow> string \<Rightarrow> (unit, 'a browser) prog" where
  "clearExpired_key now key =
    (if startsWith key prefix then
       try_catch
         (seq (getItem key) (\<lambda>item.
            case item of
              None \<Rightarrow> ret ()
            | Some text \<Rightarrow>
                if falsy item then ret ()
                else seq (JSON_parse text) (\<lambda>entry.
                  if past now (expiresAt entry) then removeItem key else ret ())))
         (\<lambda>error. removeItem key)
     else ret ())"

definition clearExpired :: "int \<Rightarrow> (unit, 'a browser) prog" where
  "clearExpired now =
    try_catch (seq Object_keys (\<lambda>keys. forEach keys (clearExpired_key now)))
      (\<lambda>error. ret ())"

text \<open>In \<^verbatim>\<open>set\<close>, \<^verbatim>\<open>Date.now() + config.duration\<close> is \<^verbatim>\<open>NaN\<close> where the duration is
  \<^verbatim>\<open>undefined\<close>.\<close>

definition set' :: "int \<Rightarrow> string \<Rightarrow> 'a jsvalue \<Rightarrow> (unit, 'a browser) prog" where
  "set' now key d =
    try_catch
      (let config = config_or_default key;
           entry = \<lparr>data = d, timestamp = now, version = version_of config,
                    expiresAt = map_option (\<lambda>dur. now + dur) (duration_of config)\<rparr>
       in seq (JSON_stringify entry) (\<lambda>text. setItem (prefix @ key) text))
      (\<lambda>error. clearExpired now)"

text \<open>\<^verbatim>\<open>get\<close> returns the data of the entry or \<^verbatim>\<open>null\<close>, which is \<open>None\<close> in both
  places: an entry whose data are \<^verbatim>\<open>null\<close> reads like a miss.\<close>

definition get :: "int \<Rightarrow> string \<Rightarrow> ('a option, 'a browser) prog" where
  "get now key =
    try_catch
      (seq (getItem (prefix @ key)) (\<lambda>item.
         case item of
           None \<Rightarrow> ret None
         | Some text \<Rightarrow>
             if falsy item then ret None
             else seq (JSON_parse text) (\<lambda>entry.
               let config = CACHE_CONFIGS_at key in
               if past now (expiresAt entry) then seq (invalidate key) (\<lambda>_. ret None)
               else if (case config of None \<Rightarrow> False
                        | Some c \<Rightarrow> CacheEntry.version entry \<noteq> version_of c)
               then seq (invalidate key) (\<lambda>_. ret None)
               else ret (data entry))))
      (\<lambda>error. seq (invalidate key) (\<lambda>_. ret None))"

definition has :: "int \<Rightarrow> string \<Rightarrow> (bool, 'a browser) prog" where
  "has now key = seq (get now key) (\<lambda>r. ret (r \<noteq> None))"

definition getAge :: "int \<Rightarrow> string \<Rightarrow> (int option, 'a browser) prog" where
  "getAge now key =
    try_catch
      (seq (getItem (prefix @ key)) (\<lambda>item.
         case item of
           None \<Rightarrow> ret None
         | Some text \<Rightarrow>
             if falsy item then ret None
             else seq (JSON_parse text) (\<lambda>entry. ret (Some (now - timestamp entry)))))
      (\<lambda>error. ret None)"

text \<open>In \<^verbatim>\<open>shouldRefresh\<close>, \<^verbatim>\<open>config.duration / 2\<close> is \<^verbatim>\<open>NaN\<close> where the duration is
  \<^verbatim>\<open>undefined\<close>, and \<^verbatim>\<open>age > NaN\<close> is false.\<close>

definition shouldRefresh :: "int \<Rightarrow> string \<Rightarrow> (bool, 'a browser) prog" where
  "shouldRefresh now key =
    seq (getAge now key) (\<lambda>age.
      case age of
        None \<Rightarrow> ret True
      | Some a \<Rightarrow>
          let config = config_or_default key
          in ret (case duration_of config of
                    Some dur \<Rightarrow> real_of_int a > real_of_int dur / 2
                  | None \<Rightarrow> False))"

definition invalidateDomainCaches :: "int \<Rightarrow> (unit, 'a browser) prog" where
  "invalidateDomainCaches now =
    try_catch
      (seq (invalidate ''projects'') (\<lambda>_.
       seq (invalidate ''dashboard'') (\<lambda>_.
       seq (invalidate ''notifications'') (\<lambda>_.
       seq (invalidate ''domainExpiry'') (\<lambda>_.
       seq (invalidate ''notification-domain-expiry'') (\<lambda>_.
       seq (invalidate ''notification-counts'') (\<lambda>_.
       seq (invalidate ''message-counts'') (\<lambda>_.
       (\<lambda>b. if window_defined b
            then dispatchEvent
                   (CustomEvent ''domainDataChanged'' ''cache-manager'' now ''cache-invalidation'') b
            else ret () b)))))))))
      (\<lambda>error. ret ())"

definition invalidateOnDataChange :: "int \<Rightarrow> string \<Rightarrow> string \<Rightarrow> (unit, 'a browser) prog" where
  "invalidateOnDataChange now tableName operation =
    (if tableName = ''domains'' then invalidateDomainCaches now
     else if tableName = ''projects'' then
       seq (invalidate ''projects'') (\<lambda>_. invalidate ''dashboard'')
     else if tableName = ''notifications'' then
       seq (invalidate ''notifications'') (\<lambda>_. invalidate ''domainExpiry'')
     else
       seq (invalidate ''projects'') (\<lambda>_. invalidate ''dashboard''))"

section \<open>The notification context\<close>

text \<open>
  \<^verbatim>\<open>src/contexts/NotificationContext.tsx\<close> holds two variants of the provider; the model
  follows the second, complete one (the one that subscribes to the \<^verbatim>\<open>domains\<close> table and
  uses the cache manager). The state of the model is the React state of the provider
  that the modelled functions touch, together with what the browser keeps for it:
  \<^item> \<open>user\<close>: the id of the signed-in user of \<^verbatim>\<open>useAuth()\<close>, if any;
  \<^item> \<open>isSaving\<close>, \<open>commentNotifications\<close>, \<open>unreadCommentCount\<close>: the \<^verbatim>\<open>useState\<close> cells;
  \<^item> \<open>handler_isSaving\<close>: the value of \<^verbatim>\<open>isSaving\<close> in the render whose effect registered
    the change handlers. The handlers are closures of that render: the effect that
    creates them lists \<^verbatim>\<open>[user, loadDomainExpiryData, loadNotificationAndMessageCounts,
    loadCommentNotifications]\<close> as its dependencies, so a later \<^verbatim>\<open>setIsSaving\<close> renders the
    provider again without running the effect again, and the registered handlers keep
    reading the value they were created with;
  \<^item> \<open>clock\<close> and \<open>timers\<close>: the time and the pending \<^verbatim>\<open>setTimeout\<close> callbacks with the
    time each is due, oldest first;
  \<^item> \<open>loads\<close>: the loaders called so far, in order;
  \<^item> \<open>page\<close>: the browser of the cache manager.
\<close>

record CommentNotification =
  id' :: string
  text' :: string
  user :: string
  userId :: string
  projectId :: string
  projectName :: string
  timestamp :: string
  type' :: string

datatype loader = loadDomainExpiryData | loadCommentNotifications

record payload =
  eventType :: string
  new_type :: "string option"
  old_type :: "string option"

record 'a provider =
  user :: "string option"
  isSaving :: bool
  commentNotifications :: "CommentNotification list"
  unreadCommentCount :: int
  handler_isSaving :: bool
  clock :: int
  timers :: "(int \<times> loader) list"
  loads :: "loader list"
  page :: "'a browser"

definition markSaveStart :: "'a provider \<Rightarrow> 'a provider" where
  "markSaveStart s = s\<lparr>isSaving := True\<rparr>"

definition markSaveEnd :: "'a provider \<Rightarrow> 'a provider" where
  "markSaveEnd s = s\<lparr>isSaving := False\<rparr>"

text \<open>The object spread \<^verbatim>\<open>{ ...comment }\<close>: a new object with the fields of the old one.\<close>

definition spread :: "CommentNotification \<Rightarrow> CommentNotification" where
  "spread comment =
    \<lparr>id' = id' comment, text' = text' comment, user = CommentNotification.user comment,
     userId = userId comment, projectId = projectId comment,
     projectName = projectName comment, timestamp = CommentNotification.timestamp comment,
     type' = type' comment\<rparr>"

definition setCommentNotifications ::
  "(CommentNotification list \<Rightarrow> CommentNotification list) \<Rightarrow> (unit, 'a provider) prog" where
  "setCommentNotifications f = (\<lambda>s. (Inr (), s\<lparr>commentNotifications := f (commentNotifications s)\<rparr>))"

definition setUnreadCommentCount :: "(int \<Rightarrow> int) \<Rightarrow> (unit, 'a provider) prog" where
  "setUnreadCommentCount f = (\<lambda>s. (Inr (), s\<lparr>unreadCommentCount := f (unreadCommentCount s)\<rparr>))"

text \<open>A call of the cache manager from the provider.\<close>

definition on_page :: "('r, 'a browser) prog \<Rightarrow> ('r, 'a provider) prog" where
  "on_page m = (\<lambda>s. case m (page s) of (r, b) \<Rightarrow> (r, s\<lparr>page := b\<rparr>))"

text \<open>
  \<open>markCommentAsRead commentId response\<close>: \<open>response\<close> is the \<^verbatim>\<open>error\<close> field of the
  backend's answer to the update (\<open>None\<close> for \<^verbatim>\<open>null\<close>); the function runs on the state
  the provider has when the answer arrives. \<^verbatim>\<open>CACHE_KEYS.commentNotifications\<close> is
  \<^verbatim>\<open>'comment-notifications'\<close>.
\<close>

definition markCommentAsRead :: "string \<Rightarrow> error option \<Rightarrow> (unit, 'a provider) prog" where
  "markCommentAsRead commentId response =
    (\<lambda>s. if provider.user s = None then ret () s
      else try_catch
        (seq (case response of Some error \<Rightarrow> throw error | None \<Rightarrow> ret ()) (\<lambda>_.
         seq (setCommentNotifications (\<lambda>prev.
                map (\<lambda>comment. if id' comment = commentId then spread comment else comment) prev)) (\<lambda>_.
         seq (setUnreadCommentCount (\<lambda>prev. max 0 (prev - 1))) (\<lambda>_.
         on_page (invalidate ''comment-notifications'')))))
        (\<lambda>error. ret ()) s)"

text \<open>
  The effect that registers the change handlers; it runs after a render in which one of
  its dependencies differs from the render before, and not when only \<^verbatim>\<open>isSaving\<close> does.
\<close>

definition setupSubscriptions :: "'a provider \<Rightarrow> 'a provider" where
  "setupSubscriptions s =
    (if provider.user s = None then s else s\<lparr>handler_isSaving := isSaving s\<rparr>)"

definition setTimeout :: "loader \<Rightarrow> int \<Rightarrow> 'a provider \<Rightarrow> 'a provider" where
  "setTimeout callback delay s = s\<lparr>timers := timers s @ [(clock s + delay, callback)]\<rparr>"

text \<open>
  The handlers of the \<^verbatim>\<open>domains\<close> channel and of the comment channel. Each returns
  \<^verbatim>\<open>() => clearTimeout(timeoutId)\<close> to the channel that called it, which drops the value:
  no code calls it, and the timer stays.
\<close>

definition domainHandler :: "payload \<Rightarrow> 'a provider \<Rightarrow> 'a provider" where
  "domainHandler p s =
    (if handler_isSaving s then s else setTimeout loadDomainExpiryData 1000 s)"

definition commentHandler :: "payload \<Rightarrow> 'a provider \<Rightarrow> 'a provider" where
  "commentHandler p s =
    (if handler_isSaving s then s
     else if new_type p = Some ''comment'' \<or> old_type p = Some ''comment''
             \<or> eventType p = ''INSERT''
     then setTimeout loadCommentNotifications 1000 s
     else s)"

text \<open>
  \<open>elapse d\<close>: \<open>d\<close> milliseconds pass, and the timers that have become due run, oldest
  first; a timer's callback calls its loader.
\<close>

definition elapse :: "int \<Rightarrow> 'a provider \<Rightarrow> 'a provider" where
  "elapse d s =
    (let t = clock s + d
     in s\<lparr>clock := t,
          loads := loads s @ map snd (filter (\<lambda>timer. fst timer \<le> t) (timers s)),
          timers := filter (\<lambda>timer. \<not> fst timer \<le> t) (timers s)\<rparr>)"

section \<open>Words for the statements\<close>

text \<open>\<open>removed keys b\<close>: the browser \<open>b\<close> without the cache entries of the logical keys
  \<open>keys\<close>; every other stored text stays, in its place, and so does the rest of \<open>b\<close>.\<close>

definition removed :: "string list \<Rightarrow> 'a browser \<Rightarrow> 'a browser" where
  "removed keys b =
    b\<lparr>localStorage := filter (\<lambda>p. fst p \<notin> set (map ((@) prefix) keys)) (localStorage b)\<rparr>"

text \<open>\<open>policy key\<close>: the duration and the version that the configuration gives \<open>key\<close>,
  or the default ones where it has no entry for \<open>key\<close>.\<close>

definition policy :: "string \<Rightarrow> CacheConfig" where
  "policy key =
    (case map_of CACHE_CONFIGS key of
       Some config \<Rightarrow> config
     | None \<Rightarrow> \<lparr>duration = 300000, version = ''1.0''\<rparr>)"

section \<open>States for the examples\<close>

definition fresh :: "nat browser" where
  "fresh = \<lparr>localStorage = [], storage_full = False, window_defined = True, dispatched = []\<rparr>"

definition full_store :: "nat browser" where
  "full_store =
    \<lparr>localStorage =
       [(''regina_cache_foo'', Corrupt),
        (''regina_cache_projects'', Blank),
        (''theme'', Corrupt),
        (''regina_cache_old'', Json \<lparr>data = Some 7, timestamp = 0, version = Some ''1.0'', expiresAt = Some 10\<rparr>),
        (''regina_cache_new'', Json \<lparr>data = Some 8, timestamp = 0, version = Some ''1.0'', expiresAt = Some 100\<rparr>)],
     storage_full = True, window_defined = True, dispatched = []\<rparr>"

definition stocked :: "nat browser" where
  "stocked =
    \<lparr>localStorage =
       [(''regina_cache_projects'', Json \<lparr>data = Some 1, timestamp = 0, version = Some ''1.0'', expiresAt = Some 300000\<rparr>),
        (''theme'', Corrupt),
        (''regina_cache_dashboard'', Json \<lparr>data = Some 2, timestamp = 0, version = Some ''1.0'', expiresAt = Some 300000\<rparr>),
        (''regina_cache_profile'', Json \<lparr>data = Some 3, timestamp = 0, version = Some ''1.1'', expiresAt = Some 2700000\<rparr>),
        (''regina_cache_notifications'', Json \<lparr>data = Some 4, timestamp = 0, version = Some ''1.0'', expiresAt = Some 120000\<rparr>),
        (''regina_cache_domainExpiry'', Json \<lparr>data = Some 5, timestamp = 0, version = Some ''1.0'', expiresAt = Some 60000\<rparr>),
        (''regina_cache_notification-counts'', Json \<lparr>data = Some 6, timestamp = 0, version = Some ''1.0'', expiresAt = Some 300000\<rparr>)],
     storage_full = False, window_defined = True, dispatched = []\<rparr>"

definition headless :: "nat browser" where
  "headless = stocked\<lparr>window_defined := False\<rparr>"

definition legacy :: "nat browser" where
  "legacy =
    \<lparr>localStorage =
       [(''regina_cache_foo'', Json \<lparr>data = Some 7, timestamp = 0, version = Some ''0.9'', expiresAt = Some 1000\<rparr>),
        (''regina_cache_profile'', Json \<lparr>data = Some 3, timestamp = 0, version = Some ''1.0'', expiresAt = Some 2700000\<rparr>),
        (''regina_cache_empty'', Blank),
        (''regina_cache_broken'', Corrupt)],
     storage_full = False, window_defined = True, dispatched = []\<rparr>"

definition signed_in :: "nat provider" where
  "signed_in =
    \<lparr>user = Some ''u1'', isSaving = False,
     commentNotifications =
       [\<lparr>id' = ''n1'', text' = ''New comment'', user = ''Ann'', userId = ''u2'',
         projectId = ''p1'', projectName = ''Site'', timestamp = ''2024-01-01T00:00:00Z'',
         type' = ''comment''\<rparr>],
     unreadCommentCount = 3, handler_isSaving = False, clock = 0, timers = [], loads = [],
     page = stocked\<rparr>"

definition signed_out :: "nat provider" where
  "signed_out = signed_in\<lparr>user := None\<rparr>"

text \<open>Change events as the channels deliver them: an update of a row of \<^verbatim>\<open>domains\<close>, and
  the insertion of a comment notification.\<close>

definition domain_update :: payload where
  "domain_update = \<lparr>eventType = ''UPDATE'', new_type = None, old_type = None\<rparr>"

definition comment_insert :: payload where
  "comment_insert = \<lparr>eventType = ''INSERT'', new_type = Some ''comment'', old_type = None\<rparr>"

text \<open>An entry under the key \<^verbatim>\<open>constructor\<close>, as a \<^verbatim>\<open>set\<close> of an ordinary key writes
  entries.\<close>

definition odd_names :: "nat browser" where
  "odd_names =
    \<lparr>localStorage =
       [(''regina_cache_constructor'',
         Json \<lparr>data = Some 1, timestamp = 0, version = Some ''1.0'', expiresAt = Some 300000\<rparr>)],
     storage_full = False, window_defined = True, dispatched = []\<rparr>"

section \<open>Properties of the cache manager\<close>

lemmas prog_defs = ret_def throw_def seq_def try_catch_def

lemmas cache_defs = set'_def get_def clearExpired_def clearExpired_key_def invalidate_def
  getItem_def setItem_def removeItem_def Object_keys_def JSON_parse_def JSON_stringify_def
  falsy_def startsWith_def prefix_def config_or_default_def CACHE_CONFIGS_at_def
  CACHE_CONFIGS_def Object_prototype_def duration_of_def version_of_def past_def

lemma invalidate_eq:
  "invalidate key b = (Inr (), b\<lparr>localStorage := AList.delete (prefix @ key) (localStorage b)\<rparr>)"
  by (simp add: invalidate_def removeItem_def prog_defs)

text \<open>The outer \<^verbatim>\<open>catch\<close> of \<^verbatim>\<open>clearExpired\<close> only logs, so the method ends normally
  whatever its loop did.\<close>

lemma clearExpired_returns: "fst (clearExpired now b) = Inr ()"
proof -
  obtain r b' where m: "seq Object_keys (\<lambda>keys. forEach keys (clearExpired_key now)) b = (r, b')"
    by (cases "seq Object_keys (\<lambda>keys. forEach keys (clearExpired_key now)) b")
  show ?thesis
    by (cases r) (simp_all add: clearExpired_def try_catch_def ret_def m)
qed

lemma set_full: "storage_full b \<Longrightarrow> set' now key d b = clearExpired now b"
  by (cases d) (simp_all add: set'_def setItem_def JSON_stringify_def prog_defs Let_def)

lemma set_unwritable: "set' now key Unwritable b = clearExpired now b"
  by (simp add: set'_def JSON_stringify_def prog_defs Let_def)

lemma set_not_full:
  "\<not> storage_full b \<Longrightarrow> d = Plain v \<or> d = Altered v \<Longrightarrow> set' now key d b =
    (Inr (), b\<lparr>localStorage := AList.update (prefix @ key)
       (Json \<lparr>data = v, timestamp = now, version = version_of (config_or_default key),
              expiresAt = map_option (\<lambda>dur. now + dur) (duration_of (config_or_default key))\<rparr>)
       (localStorage b)\<rparr>)"
  by (auto simp add: set'_def setItem_def JSON_stringify_def prog_defs Let_def)

text \<open>
  Claim C7. \<^verbatim>\<open>set(k, v)\<close> never passes a failure of the storage write on to its caller:
  for every key, value and state the call ends normally, and when the write throws
  (the quota is used up) the call does what \<^verbatim>\<open>clearExpired()\<close> does on the state it
  found, and nothing else. The same holds when \<^verbatim>\<open>JSON.stringify\<close> throws on the value,
  before the write is tried.
\<close>

theorem set_swallows_write_failure:
  "fst (set' now key d b) = Inr () \<and>
   (storage_full b \<longrightarrow> set' now key d b = clearExpired now b) \<and>
   (d = Unwritable \<longrightarrow> set' now key d b = clearExpired now b)"
proof (cases "storage_full b")
  case True
  then show ?thesis
    by (simp add: set_full set_unwritable clearExpired_returns)
next
  case False
  then show ?thesis
    by (cases d) (simp_all add: set_not_full set_unwritable clearExpired_returns)
qed

text \<open>On a full storage the write of \<^verbatim>\<open>set('a', 1)\<close> at time 50 fails; the call returns,
  and the corrupt entry and the entry that expired at 10 are gone. On a value that
  cannot be written the call returns as well.\<close>

theorem set_swallows_write_failure_witness:
  "storage_full full_store \<and>
   set' 50 ''a'' (Plain (Some 1)) full_store = clearExpired 50 full_store \<and>
   set' 50 ''a'' Unwritable fresh = (Inr (), fresh) \<and>
   set' 50 ''a'' (Plain (Some 1)) full_store =
     (Inr (), full_store\<lparr>localStorage :=
        [(''regina_cache_projects'', Blank), (''theme'', Corrupt),
         (''regina_cache_new'', Json \<lparr>data = Some 8, timestamp = 0, version = Some ''1.0'', expiresAt = Some 100\<rparr>)]\<rparr>)"
proof -
  have full: "storage_full full_store"
    by (simp add: full_store_def)
  have "clearExpired 50 full_store =
     (Inr (), full_store\<lparr>localStorage :=
        [(''regina_cache_projects'', Blank), (''theme'', Corrupt),
         (''regina_cache_new'', Json \<lparr>data = Some 8, timestamp = 0, version = Some ''1.0'', expiresAt = Some 100\<rparr>)]\<rparr>)"
    by (simp add: full_store_def cache_defs prog_defs)
  moreover have "clearExpired 50 fresh = (Inr (), fresh)"
    by (simp add: fresh_def cache_defs prog_defs)
  ultimately show ?thesis
    using full set_swallows_write_failure [of 50 "''a''" "Plain (Some 1)" full_store]
      set_swallows_write_failure [of 50 "''a''" Unwritable fresh]
    by simp
qed

subsection \<open>Invalidation\<close>

lemma delete_filter:
  "AList.delete k (filter (\<lambda>p. fst p \<notin> S) al) = filter (\<lambda>p. fst p \<notin> S \<union> {k}) al"
  by (induction al) auto

lemma removed_Nil: "removed [] b = b"
  by (simp add: removed_def)

lemma invalidate_removed: "invalidate key (removed keys b) = (Inr (), removed (keys @ [key]) b)"
  by (simp add: invalidate_eq removed_def delete_filter)

lemma invalidate_removed1: "invalidate key b = (Inr (), removed [key] b)"
  using invalidate_removed [of key "[]" b] by (simp add: removed_Nil)

lemma seq_invalidate1: "seq (invalidate key) f b = f () (removed [key] b)"
  by (simp add: seq_def invalidate_removed1)

lemma removed_removed: "removed ks2 (removed ks1 b) = removed (ks1 @ ks2) b"
  by (auto simp add: removed_def intro!: filter_cong)

lemma lookup_removed:
  "map_of (localStorage (removed keys b)) k =
    (if k \<in> set (map ((@) prefix) keys) then None else map_of (localStorage b) k)"
proof -
  have "map_of (filter (\<lambda>p. fst p \<notin> S) al) k = (if k \<in> S then None else map_of al k)"
    for S and al :: "(string \<times> 'a item) list"
    by (induction al) auto
  then show ?thesis by (simp add: removed_def)
qed

lemma removed_frame:
  "storage_full (removed keys b) = storage_full b \<and>
   window_defined (removed keys b) = window_defined b \<and>
   dispatched (removed keys b) = dispatched b"
  by (simp add: removed_def)

lemma two_invalidates:
  "seq (invalidate k1) (\<lambda>_. invalidate k2) b = (Inr (), removed [k1, k2] b)"
  by (simp add: seq_invalidate1 invalidate_removed)

lemma invalidateDomainCaches_eq:
  "invalidateDomainCaches now b =
    (Inr (),
     (removed [''projects'', ''dashboard'', ''notifications'', ''domainExpiry'',
               ''notification-domain-expiry'', ''notification-counts'', ''message-counts''] b)
       \<lparr>dispatched := dispatched b @
          (if window_defined b
           then [CustomEvent ''domainDataChanged'' ''cache-manager'' now ''cache-invalidation'']
           else [])\<rparr>)"
  by (simp add: invalidateDomainCaches_def try_catch_def
      seq_invalidate1 removed_removed dispatchEvent_def ret_def removed_frame)

text \<open>
  Claim C9. \<^verbatim>\<open>invalidateOnDataChange\<close> routes by the table's name: for \<^verbatim>\<open>'projects'\<close> it
  removes exactly the cache entries \<^verbatim>\<open>projects\<close> and \<^verbatim>\<open>dashboard\<close>, for
  \<^verbatim>\<open>'notifications'\<close> exactly \<^verbatim>\<open>notifications\<close> and \<^verbatim>\<open>domainExpiry\<close>, and for every name
  other than \<^verbatim>\<open>'domains'\<close>, \<^verbatim>\<open>'projects'\<close> and \<^verbatim>\<open>'notifications'\<close> exactly
  \<^verbatim>\<open>projects\<close> and \<^verbatim>\<open>dashboard\<close>. The call ends normally. What \<open>removed\<close> leaves is
  spelled out by the last five conjuncts: a storage key reads as before unless it is the
  prefixed name of a removed entry, a key without the cache prefix always reads as
  before, and nothing but the storage changes.
\<close>

theorem invalidateOnDataChange_routing:
  "invalidateOnDataChange now ''projects'' operation b =
     (Inr (), removed [''projects'', ''dashboard''] b) \<and>
   invalidateOnDataChange now ''notifications'' operation b =
     (Inr (), removed [''notifications'', ''domainExpiry''] b) \<and>
   (tableName \<noteq> ''domains'' \<and> tableName \<noteq> ''projects'' \<and> tableName \<noteq> ''notifications'' \<longrightarrow>
      invalidateOnDataChange now tableName operation b =
        (Inr (), removed [''projects'', ''dashboard''] b)) \<and>
   (\<forall>k. map_of (localStorage (removed keys b)) k =
      (if k \<in> set (map ((@) prefix) keys) then None else map_of (localStorage b) k)) \<and>
   (\<forall>k. \<not> startsWith k prefix \<longrightarrow>
      map_of (localStorage (removed keys b)) k = map_of (localStorage b) k) \<and>
   storage_full (removed keys b) = storage_full b \<and>
   window_defined (removed keys b) = window_defined b \<and>
   dispatched (removed keys b) = dispatched b"
proof -
  have unprefixed: "map_of (localStorage (removed keys b)) k = map_of (localStorage b) k"
    if "\<not> startsWith k prefix" for k
  proof -
    from that have "k \<notin> set (map ((@) prefix) keys)"
      by (auto simp add: startsWith_def)
    then show ?thesis by (simp add: lookup_removed)
  qed
  have routes:
    "invalidateOnDataChange now ''projects'' operation b =
       (Inr (), removed [''projects'', ''dashboard''] b)"
    "invalidateOnDataChange now ''notifications'' operation b =
       (Inr (), removed [''notifications'', ''domainExpiry''] b)"
    "tableName \<noteq> ''domains'' \<and> tableName \<noteq> ''projects'' \<and> tableName \<noteq> ''notifications'' \<longrightarrow>
      invalidateOnDataChange now tableName operation b =
        (Inr (), removed [''projects'', ''dashboard''] b)"
    by (simp_all add: invalidateOnDataChange_def two_invalidates)
  from routes unprefixed lookup_removed [of keys b] removed_frame [of keys b] show ?thesis
    by blast
qed

text \<open>A change of the table \<^verbatim>\<open>comments\<close> takes the default route: of the seven stored
  texts the two of \<^verbatim>\<open>projects\<close> and \<^verbatim>\<open>dashboard\<close> go, and the theme stays.\<close>

theorem invalidateOnDataChange_routing_witness:
  "''comments'' \<noteq> ''domains'' \<and> ''comments'' \<noteq> ''projects'' \<and> ''comments'' \<noteq> ''notifications'' \<and>
   \<not> startsWith ''theme'' prefix \<and>
   invalidateOnDataChange 5 ''comments'' ''INSERT'' stocked =
     (Inr (), removed [''projects'', ''dashboard''] stocked) \<and>
   map fst (localStorage (removed [''projects'', ''dashboard''] stocked)) =
     [''theme'', ''regina_cache_profile'', ''regina_cache_notifications'',
      ''regina_cache_domainExpiry'', ''regina_cache_notification-counts''] \<and>
   map_of (localStorage (removed [''projects'', ''dashboard''] stocked)) ''theme'' = Some Corrupt"
  using invalidateOnDataChange_routing
    [of 5 "''INSERT''" stocked "''comments''" "[''projects'', ''dashboard'']"]
  by (simp add: stocked_def removed_def prefix_def startsWith_def)

text \<open>
  Claim C3, as amended. For every operation argument,
  \<^verbatim>\<open>invalidateOnDataChange('domains', operation)\<close> ends normally and removes the cache
  entries \<^verbatim>\<open>projects\<close>, \<^verbatim>\<open>dashboard\<close>, \<^verbatim>\<open>notifications\<close>, \<^verbatim>\<open>domainExpiry\<close>,
  \<^verbatim>\<open>notification-domain-expiry\<close>, \<^verbatim>\<open>notification-counts\<close> and \<^verbatim>\<open>message-counts\<close>. Where
  a global \<^verbatim>\<open>window\<close> exists it then dispatches exactly one \<^verbatim>\<open>domainDataChanged\<close> event;
  where none exists (the guard \<^verbatim>\<open>typeof window !== 'undefined'\<close>) it dispatches none.
\<close>

theorem invalidateOnDataChange_domains:
  "invalidateOnDataChange now ''domains'' operation b =
    (Inr (),
     (removed [''projects'', ''dashboard'', ''notifications'', ''domainExpiry'',
               ''notification-domain-expiry'', ''notification-counts'', ''message-counts''] b)
       \<lparr>dispatched := dispatched b @
          (if window_defined b
           then [CustomEvent ''domainDataChanged'' ''cache-manager'' now ''cache-invalidation'']
           else [])\<rparr>)"
  by (simp add: invalidateOnDataChange_def invalidateDomainCaches_eq)

theorem invalidateOnDataChange_domains_witness:
  "window_defined stocked \<and>
   invalidateOnDataChange 5 ''domains'' ''UPDATE'' stocked =
     (Inr (),
      stocked\<lparr>localStorage :=
                [(''theme'', Corrupt),
                 (''regina_cache_profile'',
                  Json \<lparr>data = Some 3, timestamp = 0, version = Some ''1.1'', expiresAt = Some 2700000\<rparr>)],
              dispatched :=
                [CustomEvent ''domainDataChanged'' ''cache-manager'' 5 ''cache-invalidation'']\<rparr>)"
  using invalidateOnDataChange_domains [of 5 "''UPDATE''" stocked]
  by (simp add: stocked_def removed_def prefix_def)

text \<open>The claim as it was stated asks for one event per call. Without a \<^verbatim>\<open>window\<close> the
  call removes the entries and dispatches nothing.\<close>

theorem invalidateOnDataChange_domains_counterexample:
  "\<not> window_defined headless \<and>
   fst (invalidateOnDataChange 5 ''domains'' ''UPDATE'' headless) = Inr () \<and>
   map fst (localStorage (snd (invalidateOnDataChange 5 ''domains'' ''UPDATE'' headless))) =
     [''theme'', ''regina_cache_profile''] \<and>
   dispatched (snd (invalidateOnDataChange 5 ''domains'' ''UPDATE'' headless)) = []"
  by (simp add: invalidateOnDataChange_def invalidateDomainCaches_eq headless_def stocked_def
      removed_def prefix_def)

subsection \<open>Reading\<close>

text \<open>What \<^verbatim>\<open>get\<close> does, by what is stored under the key.\<close>

lemma get_eq:
  "get now key b =
    (case map_of (localStorage b) (prefix @ key) of
       None \<Rightarrow> (Inr None, b)
     | Some Blank \<Rightarrow> (Inr None, b)
     | Some Corrupt \<Rightarrow> (Inr None, removed [key] b)
     | Some (Json e) \<Rightarrow>
         if past now (expiresAt e) \<or>
            (\<exists>c. CACHE_CONFIGS_at key = Some c \<and> CacheEntry.version e \<noteq> version_of c)
         then (Inr None, removed [key] b)
         else (Inr (data e), b))"
  by (simp add: get_def getItem_def JSON_parse_def falsy_def invalidate_removed1 prog_defs
      split: option.split item.split)

lemma getAge_eq:
  "getAge now key b =
    (case map_of (localStorage b) (prefix @ key) of
       Some (Json e) \<Rightarrow> (Inr (Some (now - CacheEntry.timestamp e)), b)
     | _ \<Rightarrow> (Inr None, b))"
  by (simp add: getAge_def getItem_def JSON_parse_def falsy_def prog_defs
      split: option.split item.split)

text \<open>The keys that are not names of \<^verbatim>\<open>Object.prototype\<close> read from the configuration
  what its own entries say.\<close>

lemma CACHE_CONFIGS_at_own:
  "key \<notin> set Object_prototype \<Longrightarrow> CACHE_CONFIGS_at key = map_option Own (map_of CACHE_CONFIGS key)"
  by (simp add: CACHE_CONFIGS_at_def split: option.split)

lemma config_or_default_own:
  "key \<notin> set Object_prototype \<Longrightarrow> config_or_default key = Own (policy key)"
  by (simp add: config_or_default_def CACHE_CONFIGS_at_own policy_def split: option.split)

lemma CACHE_CONFIGS_at_inherited:
  "key \<in> set Object_prototype \<Longrightarrow> CACHE_CONFIGS_at key = Some Inherited"
  by (auto simp add: CACHE_CONFIGS_at_def CACHE_CONFIGS_def Object_prototype_def)

lemma shouldRefresh_eq:
  "shouldRefresh now key b =
    (Inr (case map_of (localStorage b) (prefix @ key) of
            Some (Json e) \<Rightarrow>
              (case duration_of (config_or_default key) of
                 Some dur \<Rightarrow> real_of_int (now - CacheEntry.timestamp e) > real_of_int dur / 2
               | None \<Rightarrow> False)
          | _ \<Rightarrow> True), b)"
  by (simp add: shouldRefresh_def getAge_eq seq_def ret_def split: option.split item.split)

text \<open>
  For a key that is not a name of \<^verbatim>\<open>Object.prototype\<close>, \<^verbatim>\<open>shouldRefresh\<close> returns true
  exactly when no readable entry is stored under it or the entry's age exceeds half of
  the configured or default duration.
\<close>

lemma shouldRefresh_ordinary_key:
  "key \<notin> set Object_prototype \<Longrightarrow>
   shouldRefresh now key b =
     (Inr ((\<forall>e. map_of (localStorage b) (prefix @ key) \<noteq> Some (Json e)) \<or>
           (\<exists>e. map_of (localStorage b) (prefix @ key) = Some (Json e) \<and>
                real_of_int (now - CacheEntry.timestamp e)
                  > real_of_int (duration (policy key)) / 2)), b)"
  by (simp add: shouldRefresh_eq config_or_default_own duration_of_def
      split: option.split item.split)

text \<open>
  Claim C6 says that \<^verbatim>\<open>shouldRefresh(k)\<close> returns true, for every key \<open>k\<close>, exactly when
  no readable entry is stored under \<open>k\<close> or the stored entry's age exceeds half of the
  configured or default duration of \<open>k\<close>. The code does otherwise for a key that is a
  name of \<^verbatim>\<open>Object.prototype\<close>, and the theorem states what it does for \<^verbatim>\<open>constructor\<close>.
  The configuration has no entry for this key. After \<^verbatim>\<open>set('constructor', 1)\<close> at time 0
  a readable entry is stored under it (without a version, and with \<^verbatim>\<open>null\<close> for its
  expiry); at 200000 its age is 200000 and exceeds half of the default duration of
  300000, and \<^verbatim>\<open>shouldRefresh\<close> returns false. It returns false as well for an entry
  under this key that has a version and an expiry.
\<close>

theorem shouldRefresh_inherited_name:
  "map_of CACHE_CONFIGS ''constructor'' = None \<and>
   snd (set' 0 ''constructor'' (Plain (Some 1)) fresh) =
     fresh\<lparr>localStorage :=
       [(''regina_cache_constructor'',
         Json \<lparr>data = Some 1, timestamp = 0, version = None, expiresAt = None\<rparr>)]\<rparr> \<and>
   fst (getAge 200000 ''constructor'' (snd (set' 0 ''constructor'' (Plain (Some 1)) fresh))) =
     Inr (Some 200000) \<and>
   real_of_int 200000 > real_of_int (duration (policy ''constructor'')) / 2 \<and>
   fst (shouldRefresh 200000 ''constructor''
          (snd (set' 0 ''constructor'' (Plain (Some 1)) fresh))) = Inr False \<and>
   getAge 200000 ''constructor'' odd_names = (Inr (Some 200000), odd_names) \<and>
   shouldRefresh 200000 ''constructor'' odd_names = (Inr False, odd_names)"
  by (simp add: shouldRefresh_eq getAge_eq odd_names_def fresh_def prefix_def policy_def
      set_not_full [where v = "Some 1"] config_or_default_def CACHE_CONFIGS_at_def
      CACHE_CONFIGS_def Object_prototype_def duration_of_def version_of_def)

text \<open>
  Claim C5, as amended. \<^verbatim>\<open>get(k)\<close> never throws: for every key, time and state it ends
  normally. If nothing is stored under \<open>k\<close>, or the empty text is, it returns \<^verbatim>\<open>null\<close>
  and leaves the storage as it is; if the stored text is not empty and is not JSON, it
  returns \<^verbatim>\<open>null\<close> and the entry is removed. The caller receives \<^verbatim>\<open>null\<close> in each of
  these cases.
\<close>

theorem get_total:
  "(\<exists>r. fst (get now key b) = Inr r) \<and>
   (falsy (map_of (localStorage b) (prefix @ key)) \<longrightarrow> get now key b = (Inr None, b)) \<and>
   (map_of (localStorage b) (prefix @ key) = Some Corrupt \<longrightarrow>
      get now key b = (Inr None, removed [key] b) \<and>
      map_of (localStorage (removed [key] b)) (prefix @ key) = None)"
proof (cases "map_of (localStorage b) (prefix @ key)")
  case None
  then show ?thesis
    by (simp add: get_eq falsy_def)
next
  case (Some stored)
  then show ?thesis
    by (cases stored) (simp_all add: get_eq falsy_def lookup_removed)
qed

theorem get_total_witness:
  "falsy (map_of (localStorage legacy) (prefix @ ''absent'')) \<and>
   get 0 ''absent'' legacy = (Inr None, legacy) \<and>
   map_of (localStorage legacy) (prefix @ ''broken'') = Some Corrupt \<and>
   get 0 ''broken'' legacy =
     (Inr None, legacy\<lparr>localStorage :=
        [(''regina_cache_foo'',
          Json \<lparr>data = Some 7, timestamp = 0, version = Some ''0.9'', expiresAt = Some 1000\<rparr>),
         (''regina_cache_profile'',
          Json \<lparr>data = Some 3, timestamp = 0, version = Some ''1.0'', expiresAt = Some 2700000\<rparr>),
         (''regina_cache_empty'', Blank)]\<rparr>)"
  using get_total [of 0 "''absent''" legacy] get_total [of 0 "''broken''" legacy]
  by (simp add: legacy_def prefix_def falsy_def removed_def)

text \<open>The claim as it was stated has every malformed entry deleted. The empty text is
  not JSON (the parse throws on it), yet \<^verbatim>\<open>get\<close> takes it for a missing entry at
  \<^verbatim>\<open>if (!item)\<close> and leaves it stored.\<close>

theorem get_total_counterexample:
  "map_of (localStorage legacy) (prefix @ ''empty'') = Some Blank \<and>
   JSON_parse Blank legacy = (Inl SyntaxError, legacy) \<and>
   get 0 ''empty'' legacy = (Inr None, legacy) \<and>
   map_of (localStorage (snd (get 0 ''empty'' legacy))) (prefix @ ''empty'') = Some Blank"
  by (simp add: get_eq legacy_def prefix_def JSON_parse_def throw_def)

text \<open>
  Claim C1, as amended. Let \<open>k\<close> be a key that is not a name of \<^verbatim>\<open>Object.prototype\<close>
  and \<open>v\<close> a value that JSON holds. After a \<^verbatim>\<open>set(k, v)\<close> at time \<open>t0\<close> whose write
  succeeded, the entry stored under \<open>k\<close> carries the version of \<open>k\<close> and expires at \<open>t0\<close>
  plus the duration of \<open>k\<close>, and \<^verbatim>\<open>get(k)\<close> returns \<open>v\<close> up to and including that time.
  In general, \<^verbatim>\<open>get(k)\<close> returns the data of the stored entry, and leaves it stored, as
  long as the current time is not after its \<^verbatim>\<open>expiresAt\<close> and, where \<open>k\<close> is configured,
  the configured version equals the entry's; once the current time is after
  \<^verbatim>\<open>expiresAt\<close> (\<open>now > expiresAt\<close>), or \<open>k\<close> is configured with a version other than the
  entry's, \<^verbatim>\<open>get(k)\<close> returns \<^verbatim>\<open>null\<close> and the entry is removed.
\<close>

theorem get_after_set:
  assumes "key \<notin> set Object_prototype"
  shows
  "(\<not> storage_full b \<longrightarrow>
      map_of (localStorage (snd (set' t0 key (Plain v) b))) (prefix @ key) =
        Some (Json \<lparr>data = v, timestamp = t0,
                     version = Some (CacheConfig.version (policy key)),
                     expiresAt = Some (t0 + duration (policy key))\<rparr>)) \<and>
   (\<not> storage_full b \<and> now \<le> t0 + duration (policy key) \<longrightarrow>
      get now key (snd (set' t0 key (Plain v) b)) = (Inr v, snd (set' t0 key (Plain v) b))) \<and>
   (map_of (localStorage b) (prefix @ key) = Some (Json e) \<and>
    expiresAt e = Some t \<and> now \<le> t \<and>
    (\<forall>c. map_of CACHE_CONFIGS key = Some c \<longrightarrow>
       CacheEntry.version e = Some (CacheConfig.version c)) \<longrightarrow>
      get now key b = (Inr (data e), b)) \<and>
   (map_of (localStorage b) (prefix @ key) = Some (Json e) \<and>
    expiresAt e = Some t \<and>
    (t < now \<or>
     (\<exists>c. map_of CACHE_CONFIGS key = Some c \<and>
        CacheEntry.version e \<noteq> Some (CacheConfig.version c))) \<longrightarrow>
      get now key b = (Inr None, removed [key] b) \<and>
      map_of (localStorage (removed [key] b)) (prefix @ key) = None)"
proof -
  note own = CACHE_CONFIGS_at_own [OF assms] config_or_default_own [OF assms]
  have stored: "map_of (localStorage (snd (set' t0 key (Plain v) b))) (prefix @ key) =
        Some (Json \<lparr>data = v, timestamp = t0,
                     version = Some (CacheConfig.version (policy key)),
                     expiresAt = Some (t0 + duration (policy key))\<rparr>)"
    if "\<not> storage_full b"
    using that
    by (simp add: set_not_full [where v = v] own update_conv' version_of_def duration_of_def)
  have served: "get now key (snd (set' t0 key (Plain v) b)) =
      (Inr v, snd (set' t0 key (Plain v) b))"
    if "\<not> storage_full b" "now \<le> t0 + duration (policy key)"
    using that
    by (auto simp add: get_eq stored own past_def version_of_def policy_def split: option.splits)
  have hit: "get now key b = (Inr (data e), b)"
    if "map_of (localStorage b) (prefix @ key) = Some (Json e)" "expiresAt e = Some t" "now \<le> t"
      "\<forall>c. map_of CACHE_CONFIGS key = Some c \<longrightarrow>
         CacheEntry.version e = Some (CacheConfig.version c)"
    using that by (auto simp add: get_eq own past_def version_of_def)
  have miss: "get now key b = (Inr None, removed [key] b)"
    if "map_of (localStorage b) (prefix @ key) = Some (Json e)" "expiresAt e = Some t"
      "t < now \<or>
       (\<exists>c. map_of CACHE_CONFIGS key = Some c \<and>
          CacheEntry.version e \<noteq> Some (CacheConfig.version c))"
    using that by (auto simp add: get_eq own past_def version_of_def)
  have gone: "map_of (localStorage (removed [key] b)) (prefix @ key) = None"
    by (simp add: lookup_removed)
  from stored served hit miss gone show ?thesis
    by blast
qed

text \<open>\<^verbatim>\<open>profile\<close> lives 45 minutes: written at 0, it is returned after 44 and after 45
  minutes and is gone after 46; \<^verbatim>\<open>null\<close> written under it is read as \<^verbatim>\<open>null\<close>, the entry
  staying. An unexpired \<^verbatim>\<open>profile\<close> entry of version 1.0 is removed, the configured
  version being 1.1. A \<^verbatim>\<open>projects\<close> entry of the configured version is returned at the
  time it expires at.\<close>

theorem get_after_set_witness:
  "''profile'' \<notin> set Object_prototype \<and> ''projects'' \<notin> set Object_prototype \<and>
   \<not> storage_full fresh \<and>
   snd (set' 0 ''profile'' (Plain (Some 9)) fresh) =
     fresh\<lparr>localStorage :=
       [(''regina_cache_profile'',
         Json \<lparr>data = Some 9, timestamp = 0, version = Some ''1.1'',
               expiresAt = Some 2700000\<rparr>)]\<rparr> \<and>
   get 2640000 ''profile'' (snd (set' 0 ''profile'' (Plain (Some 9)) fresh)) =
     (Inr (Some 9), snd (set' 0 ''profile'' (Plain (Some 9)) fresh)) \<and>
   get 2700000 ''profile'' (snd (set' 0 ''profile'' (Plain (Some 9)) fresh)) =
     (Inr (Some 9), snd (set' 0 ''profile'' (Plain (Some 9)) fresh)) \<and>
   get 2760000 ''profile'' (snd (set' 0 ''profile'' (Plain (Some 9)) fresh)) = (Inr None, fresh) \<and>
   get 5 ''profile'' (snd (set' 0 ''profile'' (Plain None) fresh)) =
     (Inr None, snd (set' 0 ''profile'' (Plain None) fresh)) \<and>
   get 5 ''profile'' legacy = (Inr None, removed [''profile''] legacy) \<and>
   map_of (localStorage (removed [''profile''] legacy)) (prefix @ ''profile'') = None \<and>
   get 300000 ''projects'' stocked = (Inr (Some 1), stocked)"
  using
    get_after_set [where b = stocked and key = "''projects''" and now = 300000 and t = 300000
      and e = "\<lparr>data = Some 1, timestamp = 0, version = Some ''1.0'', expiresAt = Some 300000\<rparr>"]
    get_after_set [where b = fresh and ?t0.0 = 0 and key = "''profile''" and v = "Some 9"
      and now = 2640000]
    get_after_set [where b = fresh and ?t0.0 = 0 and key = "''profile''" and v = "Some 9"
      and now = 2700000]
    get_after_set [where b = fresh and ?t0.0 = 0 and key = "''profile''" and v = None
      and now = 5]
    get_after_set [where b = "snd (set' 0 ''profile'' (Plain (Some 9)) fresh)"
      and key = "''profile''" and now = 2760000 and t = 2700000
      and e = "\<lparr>data = Some 9, timestamp = 0, version = Some ''1.1'', expiresAt = Some 2700000\<rparr>"]
    get_after_set [where b = legacy and key = "''profile''" and now = 5 and t = 2700000
      and e = "\<lparr>data = Some 3, timestamp = 0, version = Some ''1.0'', expiresAt = Some 2700000\<rparr>"]
  by (simp add: fresh_def legacy_def stocked_def set_not_full [where v = "Some 9"]
      set_not_full [where v = None] config_or_default_def CACHE_CONFIGS_at_def
      CACHE_CONFIGS_def Object_prototype_def policy_def version_of_def duration_of_def
      prefix_def removed_def)

text \<open>The claim as it was stated has \<^verbatim>\<open>get\<close> return \<^verbatim>\<open>null\<close> from \<open>now \<ge> expiresAt\<close> on.
  The source tests \<^verbatim>\<open>Date.now() > entry.expiresAt\<close>: at the very millisecond of
  \<^verbatim>\<open>expiresAt\<close> the entry is still returned. It also has \<^verbatim>\<open>get\<close> return every value that
  was set: a value that is written as \<^verbatim>\<open>null\<close> is read as \<^verbatim>\<open>null\<close>, and for a value that
  cannot be written nothing is stored.\<close>

theorem get_after_set_counterexample:
  "map_of (localStorage (snd (set' 0 ''projects'' (Plain (Some 7)) fresh)))
     (prefix @ ''projects'') =
     Some (Json \<lparr>data = Some 7, timestamp = 0, version = Some ''1.0'',
                  expiresAt = Some 300000\<rparr>) \<and>
   (300000 :: int) \<ge> 300000 \<and>
   get 300000 ''projects'' (snd (set' 0 ''projects'' (Plain (Some 7)) fresh)) =
     (Inr (Some 7), snd (set' 0 ''projects'' (Plain (Some 7)) fresh)) \<and>
   fst (get 1 ''projects'' (snd (set' 0 ''projects'' (Altered None) fresh))) = Inr None \<and>
   set' 0 ''projects'' Unwritable fresh = (Inr (), fresh) \<and>
   get 1 ''projects'' fresh = (Inr None, fresh)"
proof -
  have "clearExpired 0 fresh = (Inr (), fresh)"
    by (simp add: fresh_def cache_defs prog_defs)
  then show ?thesis
    by (simp add: get_eq fresh_def set_not_full [where v = "Some 7"]
        set_not_full [where v = None] set_unwritable config_or_default_def
        CACHE_CONFIGS_at_def CACHE_CONFIGS_def Object_prototype_def version_of_def
        duration_of_def past_def prefix_def)
qed

text \<open>
  Claim C4, as amended. Let \<open>k\<close> be a key without an entry in \<^verbatim>\<open>CACHE_CONFIGS\<close> that is
  not a name of \<^verbatim>\<open>Object.prototype\<close>. A \<^verbatim>\<open>set(k, v)\<close> of a value that JSON holds, whose
  write succeeds, stores the default version \<^verbatim>\<open>'1.0'\<close> and an expiry 300000 ms after the
  current time. \<^verbatim>\<open>get(k)\<close> compares the version of such a key's entry with nothing
  (\<^verbatim>\<open>config && ...\<close>): an entry that has not expired is returned whatever its version,
  and an expired one is removed.
\<close>

theorem unconfigured_key:
  assumes "map_of CACHE_CONFIGS key = None" and "key \<notin> set Object_prototype"
  shows
  "(\<not> storage_full b \<longrightarrow>
      set' now key (Plain v) b =
        (Inr (), b\<lparr>localStorage := AList.update (prefix @ key)
           (Json \<lparr>data = v, timestamp = now, version = Some ''1.0'',
                  expiresAt = Some (now + 300000)\<rparr>)
           (localStorage b)\<rparr>)) \<and>
   (map_of (localStorage b) (prefix @ key) = Some (Json e) \<and>
    expiresAt e = Some t \<and> now \<le> t \<longrightarrow>
      get now key b = (Inr (data e), b)) \<and>
   (map_of (localStorage b) (prefix @ key) = Some (Json e) \<and>
    expiresAt e = Some t \<and> t < now \<longrightarrow>
      get now key b = (Inr None, removed [key] b))"
proof -
  from assms have undefined: "CACHE_CONFIGS_at key = None"
    by (simp add: CACHE_CONFIGS_at_def)
  then have default: "config_or_default key = Own \<lparr>duration = 300000, version = ''1.0''\<rparr>"
    by (simp add: config_or_default_def)
  have written: "set' now key (Plain v) b =
        (Inr (), b\<lparr>localStorage := AList.update (prefix @ key)
           (Json \<lparr>data = v, timestamp = now, version = Some ''1.0'',
                  expiresAt = Some (now + 300000)\<rparr>)
           (localStorage b)\<rparr>)"
    if "\<not> storage_full b"
    using that by (simp add: set_not_full [where v = v] default version_of_def duration_of_def)
  have read: "get now key b =
      (if t < now then (Inr None, removed [key] b) else (Inr (data e), b))"
    if "map_of (localStorage b) (prefix @ key) = Some (Json e)" "expiresAt e = Some t"
    using that by (simp add: get_eq undefined past_def)
  from written read show ?thesis
    by auto
qed

theorem unconfigured_key_witness:
  "map_of CACHE_CONFIGS ''message-counts'' = None \<and>
   ''message-counts'' \<notin> set Object_prototype \<and>
   map_of CACHE_CONFIGS ''foo'' = None \<and> ''foo'' \<notin> set Object_prototype \<and>
   \<not> storage_full fresh \<and>
   set' 20 ''message-counts'' (Plain (Some 4)) fresh =
     (Inr (), fresh\<lparr>localStorage :=
        [(''regina_cache_message-counts'',
          Json \<lparr>data = Some 4, timestamp = 20, version = Some ''1.0'',
                expiresAt = Some 300020\<rparr>)]\<rparr>) \<and>
   get 1000 ''foo'' legacy = (Inr (Some 7), legacy) \<and>
   get 1001 ''foo'' legacy = (Inr None, removed [''foo''] legacy)"
  using
    unconfigured_key [where key = "''message-counts''" and b = fresh and now = 20
      and v = "Some 4"]
    unconfigured_key [where key = "''foo''" and b = legacy and now = 1000 and t = 1000
      and e = "\<lparr>data = Some 7, timestamp = 0, version = Some ''0.9'', expiresAt = Some 1000\<rparr>"]
    unconfigured_key [where key = "''foo''" and b = legacy and now = 1001 and t = 1000
      and e = "\<lparr>data = Some 7, timestamp = 0, version = Some ''0.9'', expiresAt = Some 1000\<rparr>"]
  by (simp add: CACHE_CONFIGS_def Object_prototype_def fresh_def legacy_def prefix_def)

text \<open>The claim as it was stated has \<^verbatim>\<open>get\<close> reject an entry whose version is not the
  default one. An unexpired entry of version 0.9 under the unconfigured key \<^verbatim>\<open>foo\<close> is
  returned.\<close>

theorem unconfigured_key_counterexample:
  "map_of CACHE_CONFIGS ''foo'' = None \<and>
   map_of (localStorage legacy) (prefix @ ''foo'') =
     Some (Json \<lparr>data = Some 7, timestamp = 0, version = Some ''0.9'',
                  expiresAt = Some 1000\<rparr>) \<and>
   ''0.9'' \<noteq> CacheConfig.version (policy ''foo'') \<and>
   get 0 ''foo'' legacy = (Inr (Some 7), legacy)"
  by (simp add: get_eq legacy_def prefix_def policy_def CACHE_CONFIGS_at_def CACHE_CONFIGS_def
      Object_prototype_def past_def)

section \<open>Properties of the notification context\<close>

lemmas provider_defs = setupSubscriptions_def domainHandler_def commentHandler_def
  setTimeout_def elapse_def markSaveStart_def markSaveEnd_def

text \<open>The copy that \<^verbatim>\<open>markCommentAsRead\<close> puts in the place of the notification it was
  called for has the fields of the original, so the list holds the same values after
  the call.\<close>

lemma spread_id: "spread comment = comment"
  by (simp add: spread_def)

lemma map_spread: "map (\<lambda>comment. if id' comment = commentId then spread comment else comment) prev = prev"
  by (induction prev) (simp_all add: spread_id)

lemma markCommentAsRead_eq:
  "markCommentAsRead commentId response s =
    (if provider.user s = None \<or> response \<noteq> None then (Inr (), s)
     else (Inr (), s\<lparr>unreadCommentCount := max 0 (unreadCommentCount s - 1),
                      page := removed [''comment-notifications''] (page s)\<rparr>))"
  by (cases response)
    (simp_all add: markCommentAsRead_def prog_defs setCommentNotifications_def
      setUnreadCommentCount_def on_page_def invalidate_removed1 map_spread)

text \<open>
  Claim C10, as amended. Whenever a user is signed in and the backend answers the update
  without an error, \<^verbatim>\<open>markCommentAsRead(commentId)\<close> sets \<^verbatim>\<open>unreadCommentCount\<close> to the
  maximum of 0 and its value minus 1, whether or not a notification with this id is in
  \<^verbatim>\<open>commentNotifications\<close> and whether or not it had been read; the list holds the same
  notifications with the same fields afterwards (no field of them records the reading);
  and the cache entry \<^verbatim>\<open>comment-notifications\<close> is removed. Without a signed-in user, or
  when the backend answers with an error, the call ends normally and changes nothing.
\<close>

theorem markCommentAsRead_effect:
  "(provider.user s \<noteq> None \<longrightarrow>
      markCommentAsRead commentId None s =
        (Inr (), s\<lparr>unreadCommentCount := max 0 (unreadCommentCount s - 1),
                     page := removed [''comment-notifications''] (page s)\<rparr>) \<and>
      commentNotifications (snd (markCommentAsRead commentId None s)) = commentNotifications s) \<and>
   (provider.user s = None \<or> response \<noteq> None \<longrightarrow>
      markCommentAsRead commentId response s = (Inr (), s))"
  by (simp add: markCommentAsRead_eq)

text \<open>With three unread comments the count becomes 2 for an id that is not in the list;
  a count of 0 stays 0; a backend error leaves the state as it is.\<close>

theorem markCommentAsRead_effect_witness:
  "provider.user signed_in \<noteq> None \<and>
   ''n9'' \<notin> set (map id' (commentNotifications signed_in)) \<and>
   unreadCommentCount (snd (markCommentAsRead ''n9'' None signed_in)) = 2 \<and>
   unreadCommentCount (snd (markCommentAsRead ''n9'' None (signed_in\<lparr>unreadCommentCount := 0\<rparr>))) = 0 \<and>
   commentNotifications (snd (markCommentAsRead ''n1'' None signed_in)) = commentNotifications signed_in \<and>
   markCommentAsRead ''n1'' (Some PostgrestError) signed_in = (Inr (), signed_in)"
  using markCommentAsRead_effect [of signed_in "''n9''" "Some PostgrestError"]
    markCommentAsRead_effect [of "signed_in\<lparr>unreadCommentCount := 0\<rparr>" "''n9''" "Some PostgrestError"]
    markCommentAsRead_effect [of signed_in "''n1''" "Some PostgrestError"]
  by (simp add: signed_in_def)

text \<open>The claim as it was stated has the count lowered whenever the call completes
  without a backend error. With no user signed in the call returns at \<^verbatim>\<open>if (!user)\<close>,
  no error has come from the backend, and the count is still 3.\<close>

theorem markCommentAsRead_effect_counterexample:
  "provider.user signed_out = None \<and>
   unreadCommentCount signed_out = 3 \<and>
   markCommentAsRead ''n1'' None signed_out = (Inr (), signed_out) \<and>
   unreadCommentCount (snd (markCommentAsRead ''n1'' None signed_out)) \<noteq> max 0 (unreadCommentCount signed_out - 1)"
  by (simp add: markCommentAsRead_eq signed_out_def signed_in_def)

subsection \<open>Change events\<close>

text \<open>Every change event that passes the guard starts a timer of its own, and no
  handler removes a timer.\<close>

lemma domainHandler_timers:
  "timers (domainHandler p s) =
    (if handler_isSaving s then timers s
     else timers s @ [(clock s + 1000, loadDomainExpiryData)])"
  by (simp add: domainHandler_def setTimeout_def)

text \<open>The guard of the handlers does not read the state \<^verbatim>\<open>isSaving\<close>.\<close>

lemma domainHandler_isSaving:
  "domainHandler p (s\<lparr>isSaving := x\<rparr>) = (domainHandler p s)\<lparr>isSaving := x\<rparr>"
  by (simp add: domainHandler_def setTimeout_def)

lemma commentHandler_isSaving:
  "commentHandler p (s\<lparr>isSaving := x\<rparr>) = (commentHandler p s)\<lparr>isSaving := x\<rparr>"
  by (simp add: commentHandler_def setTimeout_def)

text \<open>
  Claim C2 says that, while \<^verbatim>\<open>isSaving\<close> is false, three change events for the same
  table within one second cause one reload of the slice. The code does otherwise, and
  the theorem states what it does: with the subscriptions set up and \<^verbatim>\<open>isSaving\<close> false,
  three changes of \<^verbatim>\<open>domains\<close> 100 ms apart are followed by three calls of
  \<^verbatim>\<open>loadDomainExpiryData\<close>, and three comment notifications 100 ms apart by three calls
  of \<^verbatim>\<open>loadCommentNotifications\<close>.
\<close>

theorem three_events_three_reloads:
  "\<not> isSaving (setupSubscriptions signed_in) \<and>
   loads (elapse 1000 (domainHandler domain_update (elapse 100 (domainHandler domain_update
     (elapse 100 (domainHandler domain_update (setupSubscriptions signed_in)))))))
     = [loadDomainExpiryData, loadDomainExpiryData, loadDomainExpiryData] \<and>
   loads (elapse 1000 (commentHandler comment_insert (elapse 100 (commentHandler comment_insert
     (elapse 100 (commentHandler comment_insert (setupSubscriptions signed_in)))))))
     = [loadCommentNotifications, loadCommentNotifications, loadCommentNotifications]"
  by (simp add: provider_defs signed_in_def domain_update_def comment_insert_def)

text \<open>
  Claim C8 says that a change event that arrives while \<^verbatim>\<open>isSaving\<close> is true causes no
  reload. The code does otherwise, and the theorem states what it does: the handlers
  were registered while \<^verbatim>\<open>isSaving\<close> was false, \<^verbatim>\<open>markSaveStart()\<close> makes it true, and a
  change of \<^verbatim>\<open>domains\<close> (a comment notification) that arrives then is followed, a second
  later, by a call of \<^verbatim>\<open>loadDomainExpiryData\<close> (of \<^verbatim>\<open>loadCommentNotifications\<close>). With
  these handlers an event after \<^verbatim>\<open>markSaveEnd()\<close> is followed by its reload as well. With
  handlers registered during a save it is the other way round: they go on reading true,
  and an event that arrives after \<^verbatim>\<open>markSaveEnd()\<close> is dropped. (The first variant of the
  provider in the same file lists \<^verbatim>\<open>isSaving\<close> among the dependencies of the effect, so
  that its handler is registered anew with every change of \<^verbatim>\<open>isSaving\<close>; the variant
  modelled here does not.)
\<close>

theorem event_during_save_reloads:
  "isSaving (markSaveStart (setupSubscriptions signed_in)) \<and>
   loads (elapse 1000 (domainHandler domain_update (markSaveStart (setupSubscriptions signed_in))))
     = [loadDomainExpiryData] \<and>
   loads (elapse 1000 (commentHandler comment_insert (markSaveStart (setupSubscriptions signed_in))))
     = [loadCommentNotifications] \<and>
   loads (elapse 1000 (domainHandler domain_update
     (markSaveEnd (markSaveStart (setupSubscriptions signed_in)))))
     = [loadDomainExpiryData] \<and>
   \<not> isSaving (markSaveEnd (setupSubscriptions (markSaveStart signed_in))) \<and>
   loads (elapse 1000 (domainHandler domain_update
     (markSaveEnd (setupSubscriptions (markSaveStart signed_in)))))
     = []"
  by (simp add: provider_defs signed_in_def domain_update_def comment_insert_def)

end
